theory Spec2Isabelle
  imports Main
begin

section \<open>Python values, callables and exceptions\<close>

text \<open>
  The column side of the adapter is typed \<^verbatim>\<open>Any\<close> in \<^verbatim>\<open>src/main.py\<close>. The values that
  occur there are Python's \<^verbatim>\<open>None\<close>, the scalars of the model \<^verbatim>\<open>UserMeta\<close>
  (\<^verbatim>\<open>str\<close>, \<^verbatim>\<open>int\<close>, \<^verbatim>\<open>bool\<close>) and the containers a JSON dump is made of. The test
  \<^verbatim>\<open>value is None\<close> is equality with \<open>PyNone\<close>.
\<close>

datatype any =
    PyNone
  | PyBool bool
  | PyInt int
  | PyStr string
  | PyList "any list"
  | PyDict "(string \<times> any) list"

text \<open>
  A Python callable: what calling it returns, and its truth value. The truth value
  matters because \<^verbatim>\<open>__init__\<close> selects with \<^verbatim>\<open>serializer or self._default_serializer\<close>,
  and \<^verbatim>\<open>or\<close> tests truthiness, not \<^verbatim>\<open>is None\<close>. Functions, lambdas and bound methods
  are truthy; an object with \<^verbatim>\<open>__call__\<close> is falsy when its \<^verbatim>\<open>__bool__\<close> or
  \<^verbatim>\<open>__len__\<close> says so. A call either raises (\<open>Inl\<close>, the exception) or returns
  (\<open>Inr\<close>).
\<close>

record ('a, 'b) callable =
  call :: "'a \<Rightarrow> 'b"
  truthy :: bool

definition bound_method :: "('a \<Rightarrow> 'b) \<Rightarrow> ('a, 'b) callable" where
  "bound_method f = \<lparr>call = f, truthy = True\<rparr>"

text \<open>\<^verbatim>\<open>x or y\<close> for an optional callable \<open>x\<close>: \<^verbatim>\<open>None\<close> is falsy.\<close>

definition py_or :: "('a, 'b) callable option \<Rightarrow> ('a, 'b) callable \<Rightarrow> ('a, 'b) callable" where
  "py_or x y = (case x of None \<Rightarrow> y | Some c \<Rightarrow> if truthy c then c else y)"

section \<open>The mapping library: column types and dialects\<close>

text \<open>
  The three \<^verbatim>\<open>TypeEngine\<close> classes \<^verbatim>\<open>src/main.py\<close> imports, an instance of one of them
  (its class and the constructor arguments), and the declared type of \<^verbatim>\<open>impl\<close>,
  \<^verbatim>\<open>TypeEngine[Any] | type[TypeEngine[Any]]\<close>: a class or an instance.
\<close>

datatype engine_class = JSON | JSONB | String

datatype type_engine =
  Instance (class_of: engine_class) (init_args: "any list") (init_kwargs: "(string \<times> any) list")

datatype impl_t = TypeClass engine_class | TypeInstance type_engine

text \<open>
  A dialect: its name, and its method \<^verbatim>\<open>type_descriptor\<close>, which belongs to the mapping
  library and is taken as given.
\<close>

record Dialect =
  name :: string
  type_descriptor :: "type_engine \<Rightarrow> type_engine"

text \<open>
  The expression \<^verbatim>\<open>impl() if callable(impl) else impl\<close> of \<^verbatim>\<open>load_dialect_impl\<close> and of
  \<^verbatim>\<open>render_item\<close>. A class is callable, and calling it with no arguments constructs an
  instance; an instance of a \<^verbatim>\<open>TypeEngine\<close> class has no \<^verbatim>\<open>__call__\<close>, so it is not
  callable and is taken as it is.
\<close>

fun call_if_callable :: "impl_t \<Rightarrow> type_engine" where
  "call_if_callable (TypeClass c) = Instance c [] []"
| "call_if_callable (TypeInstance t) = t"

section \<open>The validation library at the model type\<close>

text \<open>
  What the validation library provides for the model class \<^verbatim>\<open>ModelT\<close>, whose instances
  are the values of \<open>'m\<close>: the instance methods \<^verbatim>\<open>model_dump(mode=...)\<close> and
  \<^verbatim>\<open>model_dump_json()\<close> (declared to return \<^verbatim>\<open>str\<close>), the class method
  \<^verbatim>\<open>model_validate_json\<close>, and \<^verbatim>\<open>TypeAdapter(cls)\<close> with its \<^verbatim>\<open>validate_python\<close>.
  None of it is code of this repository, so all of it is a parameter. \<open>'e\<close> is the type
  of exceptions.
\<close>

record ('m, 'e) pydantic_TypeAdapter =
  validate_python :: "any \<Rightarrow> 'e + 'm"

record ('m, 'e) pydantic_model =
  model_dump :: "string \<Rightarrow> 'm \<Rightarrow> 'e + any"
  model_dump_json :: "'m \<Rightarrow> 'e + string"
  model_validate_json :: "any \<Rightarrow> 'e + 'm"
  TypeAdapter :: "('m, 'e) pydantic_TypeAdapter"

section \<open>\<^verbatim>\<open>src/main.py\<close>: the type adapter\<close>

text \<open>The classes of the adapter; a method is looked up by the class of \<^verbatim>\<open>self\<close>.\<close>

datatype pydantic_class = BasePydanticType | PydanticJSON | PydanticString

text \<open>
  The part of the object that \<^verbatim>\<open>super().__init__(*args, **kwargs)\<close> sets up, taken as
  given: the attribute \<^verbatim>\<open>impl\<close> (declared on line 14 as a class or an instance) and
  the property \<^verbatim>\<open>impl_instance\<close> that \<^verbatim>\<open>render_item\<close> reads.
\<close>

record TypeDecorator =
  impl :: impl_t
  impl_instance :: type_engine

text \<open>
  The object after line 31 of \<^verbatim>\<open>__init__\<close>, which is the \<^verbatim>\<open>self\<close> the default
  (de)serializers are bound to, and the finished object.
\<close>

record ('m, 'e) pydantic_type_pre = TypeDecorator +
  cls :: pydantic_class
  pydantic_model_type :: "('m, 'e) pydantic_model"

record ('m, 'e) pydantic_type = "('m, 'e) pydantic_type_pre" +
  serializer :: "('m, 'e + any) callable"
  deserializer :: "(any, 'e + 'm) callable"

definition type_adapter ::
  "('m, 'e, 'z) pydantic_type_pre_scheme \<Rightarrow> ('m, 'e) pydantic_TypeAdapter" where
  "type_adapter self = TypeAdapter (pydantic_model_type self)"

text \<open>
  \<^verbatim>\<open>model.model_dump(mode="json")\<close>: the method of the instance, which is of the class
  \<^verbatim>\<open>ModelT\<close> the adapter is configured with.
\<close>

definition BasePydanticType_default_serializer ::
  "('m, 'e, 'z) pydantic_type_pre_scheme \<Rightarrow> 'm \<Rightarrow> 'e + any" where
  "BasePydanticType_default_serializer self model =
     model_dump (pydantic_model_type self) ''json'' model"

definition BasePydanticType_default_deserializer ::
  "('m, 'e, 'z) pydantic_type_pre_scheme \<Rightarrow> any \<Rightarrow> 'e + 'm" where
  "BasePydanticType_default_deserializer self v = validate_python (type_adapter self) v"

definition PydanticString_default_serializer ::
  "('m, 'e, 'z) pydantic_type_pre_scheme \<Rightarrow> 'm \<Rightarrow> 'e + any" where
  "PydanticString_default_serializer self model =
     (case model_dump_json (pydantic_model_type self) model of
        Inl e \<Rightarrow> Inl e
      | Inr s \<Rightarrow> Inr (PyStr s))"

definition PydanticString_default_deserializer ::
  "('m, 'e, 'z) pydantic_type_pre_scheme \<Rightarrow> any \<Rightarrow> 'e + 'm" where
  "PydanticString_default_deserializer self v =
     model_validate_json (pydantic_model_type self) v"

text \<open>
  \<^verbatim>\<open>self._default_serializer\<close> and \<^verbatim>\<open>self._default_deserializer\<close>: only
  \<^verbatim>\<open>PydanticString\<close> overrides them.
\<close>

definition default_serializer ::
  "('m, 'e, 'z) pydantic_type_pre_scheme \<Rightarrow> 'm \<Rightarrow> 'e + any" where
  "default_serializer self =
     (case cls self of
        PydanticString \<Rightarrow> PydanticString_default_serializer self
      | _ \<Rightarrow> BasePydanticType_default_serializer self)"

definition default_deserializer ::
  "('m, 'e, 'z) pydantic_type_pre_scheme \<Rightarrow> any \<Rightarrow> 'e + 'm" where
  "default_deserializer self =
     (case cls self of
        PydanticString \<Rightarrow> PydanticString_default_deserializer self
      | _ \<Rightarrow> BasePydanticType_default_deserializer self)"

text \<open>
  \<^verbatim>\<open>__init__\<close>, for an object of class \<open>c\<close> on which \<^verbatim>\<open>super().__init__\<close> has
  returned \<open>super\<close>.
\<close>

definition init ::
  "pydantic_class \<Rightarrow> TypeDecorator \<Rightarrow> ('m, 'e) pydantic_model
   \<Rightarrow> ('m, 'e + any) callable option \<Rightarrow> (any, 'e + 'm) callable option
   \<Rightarrow> ('m, 'e) pydantic_type" where
  "init c super pmt ser deser =
     (let self = \<lparr>impl = impl super, impl_instance = impl_instance super,
                  cls = c, pydantic_model_type = pmt\<rparr>
      in \<lparr>impl = impl super, impl_instance = impl_instance super,
          cls = c, pydantic_model_type = pmt,
          serializer = py_or ser (bound_method (default_serializer self)),
          deserializer = py_or deser (bound_method (default_deserializer self))\<rparr>)"

text \<open>
  The class attribute \<^verbatim>\<open>impl\<close>: \<^verbatim>\<open>PydanticJSON\<close> sets it to the class \<^verbatim>\<open>JSON\<close> (line 107)
  and \<^verbatim>\<open>PydanticString\<close> to the class \<^verbatim>\<open>String\<close> (line 119); \<^verbatim>\<open>BasePydanticType\<close>
  only declares its type.
\<close>

definition PydanticJSON_impl :: impl_t where
  "PydanticJSON_impl = TypeClass JSON"

definition PydanticString_impl :: impl_t where
  "PydanticString_impl = TypeClass String"

text \<open>
  \<^verbatim>\<open>super().__init__(*args, **kwargs)\<close> is the mapping library's
  \<^verbatim>\<open>TypeDecorator.__init__\<close>: it stores in \<^verbatim>\<open>self.impl\<close> the class attribute \<^verbatim>\<open>impl\<close>,
  called with the arguments when it is a class and kept when it is an instance, and
  \<^verbatim>\<open>impl_instance\<close> is that object. The arguments are taken to be ones the class accepts.
\<close>

definition TypeDecorator_init ::
  "impl_t \<Rightarrow> any list \<Rightarrow> (string \<times> any) list \<Rightarrow> TypeDecorator" where
  "TypeDecorator_init class_impl args kwargs =
     (let i = (case class_impl of
                 TypeClass c \<Rightarrow> Instance c args kwargs
               | TypeInstance t \<Rightarrow> t)
      in \<lparr>impl = TypeInstance i, impl_instance = i\<rparr>)"

text \<open>
  The calls \<^verbatim>\<open>PydanticJSON(pydantic_model_type, *args, serializer=..., deserializer=...,
  **kwargs)\<close> and \<^verbatim>\<open>PydanticString(...)\<close>, as on lines 142 and 149: \<^verbatim>\<open>__init__\<close> on an
  object of the class.
\<close>

definition PydanticJSON_new ::
  "('m, 'e) pydantic_model \<Rightarrow> any list
   \<Rightarrow> ('m, 'e + any) callable option \<Rightarrow> (any, 'e + 'm) callable option
   \<Rightarrow> (string \<times> any) list \<Rightarrow> ('m, 'e) pydantic_type" where
  "PydanticJSON_new pmt args ser deser kwargs =
     init PydanticJSON (TypeDecorator_init PydanticJSON_impl args kwargs) pmt ser deser"

definition PydanticString_new ::
  "('m, 'e) pydantic_model \<Rightarrow> any list
   \<Rightarrow> ('m, 'e + any) callable option \<Rightarrow> (any, 'e + 'm) callable option
   \<Rightarrow> (string \<times> any) list \<Rightarrow> ('m, 'e) pydantic_type" where
  "PydanticString_new pmt args ser deser kwargs =
     init PydanticString (TypeDecorator_init PydanticString_impl args kwargs) pmt ser deser"

definition BasePydanticType_get_dialect_type_impl ::
  "('m, 'e, 'z) pydantic_type_pre_scheme \<Rightarrow> Dialect \<Rightarrow> impl_t" where
  "BasePydanticType_get_dialect_type_impl self dialect = impl self"

definition PydanticJSON_get_dialect_type_impl ::
  "('m, 'e, 'z) pydantic_type_pre_scheme \<Rightarrow> Dialect \<Rightarrow> impl_t" where
  "PydanticJSON_get_dialect_type_impl self dialect =
     (if name dialect = ''postgresql'' then TypeClass JSONB else impl self)"

text \<open>\<^verbatim>\<open>self.get_dialect_type_impl\<close>: only \<^verbatim>\<open>PydanticJSON\<close> overrides it.\<close>

definition get_dialect_type_impl ::
  "('m, 'e, 'z) pydantic_type_pre_scheme \<Rightarrow> Dialect \<Rightarrow> impl_t" where
  "get_dialect_type_impl self dialect =
     (case cls self of
        PydanticJSON \<Rightarrow> PydanticJSON_get_dialect_type_impl self dialect
      | _ \<Rightarrow> BasePydanticType_get_dialect_type_impl self dialect)"

definition load_dialect_impl ::
  "('m, 'e, 'z) pydantic_type_pre_scheme \<Rightarrow> Dialect \<Rightarrow> type_engine" where
  "load_dialect_impl self dialect =
     (let i = get_dialect_type_impl self dialect
      in type_descriptor dialect (call_if_callable i))"

definition process_bind_param ::
  "('m, 'e) pydantic_type \<Rightarrow> 'm option \<Rightarrow> Dialect \<Rightarrow> 'e + any" where
  "process_bind_param self v dialect =
     (case v of
        None \<Rightarrow> Inr PyNone
      | Some model \<Rightarrow> call (serializer self) model)"

definition process_result_value ::
  "('m, 'e) pydantic_type \<Rightarrow> any \<Rightarrow> Dialect \<Rightarrow> 'e + 'm option" where
  "process_result_value self v dialect =
     (if v = PyNone then Inr None
      else (case call (deserializer self) v of
              Inl e \<Rightarrow> Inl e
            | Inr model \<Rightarrow> Inr (Some model)))"

text \<open>
  Storing a model and loading what was stored: \<^verbatim>\<open>process_result_value\<close> on the output
  of \<^verbatim>\<open>process_bind_param\<close>; an exception of the first ends the trip.
\<close>

definition store_then_load ::
  "('m, 'e) pydantic_type \<Rightarrow> 'm \<Rightarrow> Dialect \<Rightarrow> Dialect \<Rightarrow> 'e + 'm option" where
  "store_then_load self model dialect dialect' =
     (case process_bind_param self (Some model) dialect of
        Inl e \<Rightarrow> Inl e
      | Inr v \<Rightarrow> process_result_value self v dialect')"

section \<open>\<^verbatim>\<open>src/migrations/env.py\<close>: the rendering hook and its registration\<close>

text \<open>
  The autogenerate context: \<^verbatim>\<open>render_item\<close> reads its \<^verbatim>\<open>dialect\<close>, which is a dialect
  or \<^verbatim>\<open>None\<close>; whatever else it holds is passed on to \<^verbatim>\<open>_repr_type\<close>.
\<close>

record AutogenContext =
  dialect :: "Dialect option"

text \<open>
  The item handed to the hook is any object: an adapter (an instance of
  \<^verbatim>\<open>BasePydanticType\<close> or of a subclass) or something else.
\<close>

datatype ('m, 'e, 'o) py_object =
    PydanticTypeObj (the_pydantic_type: "('m, 'e) pydantic_type")
  | OtherObj 'o

fun isinstance_BasePydanticType :: "('m, 'e, 'o) py_object \<Rightarrow> bool" where
  "isinstance_BasePydanticType (PydanticTypeObj self) = True"
| "isinstance_BasePydanticType (OtherObj x) = False"

text \<open>What the hook returns: \<^verbatim>\<open>False\<close>, or the string \<^verbatim>\<open>_repr_type\<close> produced.\<close>

datatype rendered = RFalse | Rendered string

text \<open>
  \<^verbatim>\<open>render_item\<close>. \<^verbatim>\<open>_repr_type\<close> is the migration tool's and is the parameter
  \<open>repr_type\<close>.
\<close>

definition render_item ::
  "(type_engine \<Rightarrow> 'z AutogenContext_scheme \<Rightarrow> string) \<Rightarrow> string
   \<Rightarrow> ('m, 'e, 'o) py_object \<Rightarrow> 'z AutogenContext_scheme \<Rightarrow> rendered" where
  "render_item repr_type type' obj autogen_context =
     (if type' = ''type'' \<and> isinstance_BasePydanticType obj then
        (case dialect autogen_context of
           Some d \<Rightarrow>
             (let i = get_dialect_type_impl (the_pydantic_type obj) d
              in Rendered (repr_type (call_if_callable i) autogen_context))
         | None \<Rightarrow>
             Rendered (repr_type (impl_instance (the_pydantic_type obj)) autogen_context))
      else RFalse)"

text \<open>
  The migration context is the tool's; the script's effect on it is the sequence of
  calls it makes. A call of \<^verbatim>\<open>context.configure\<close> carries its keyword arguments, by
  name. \<open>'md\<close> is the metadata object, \<open>'conn\<close> a connection, \<open>'cb\<close> a callback.
\<close>

datatype ('md, 'conn, 'cb) kwarg =
    KwOptStr "string option"
  | KwBool bool
  | KwDict "(string \<times> string) list"
  | KwMetadata 'md
  | KwConnection 'conn
  | KwCallback 'cb

datatype ('md, 'conn, 'cb) context_call =
    Configure "(string \<times> ('md, 'conn, 'cb) kwarg) list"
  | Begin_transaction
  | Run_migrations

text \<open>The configuration object, read through \<^verbatim>\<open>get_main_option\<close>.\<close>

record Config =
  get_main_option :: "string \<Rightarrow> string option"

definition run_migrations_offline ::
  "(type_engine \<Rightarrow> 'z AutogenContext_scheme \<Rightarrow> string) \<Rightarrow> Config \<Rightarrow> 'md
   \<Rightarrow> ('md, 'conn,
        string \<Rightarrow> ('m, 'e, 'o) py_object \<Rightarrow> 'z AutogenContext_scheme \<Rightarrow> rendered)
      context_call list" where
  "run_migrations_offline repr_type config target_metadata =
     (let url = get_main_option config ''sqlalchemy.url''
      in [Configure
            [(''url'', KwOptStr url),
             (''target_metadata'', KwMetadata target_metadata),
             (''literal_binds'', KwBool True),
             (''render_item'', KwCallback (render_item repr_type)),
             (''dialect_opts'', KwDict [(''paramstyle'', ''named'')])],
          Begin_transaction,
          Run_migrations])"

text \<open>
  \<open>connection\<close> is what \<^verbatim>\<open>connectable.connect()\<close> yields, the engine being built by
  the mapping library from the configuration.
\<close>

definition run_migrations_online ::
  "(type_engine \<Rightarrow> 'z AutogenContext_scheme \<Rightarrow> string) \<Rightarrow> 'conn \<Rightarrow> 'md
   \<Rightarrow> ('md, 'conn,
        string \<Rightarrow> ('m, 'e, 'o) py_object \<Rightarrow> 'z AutogenContext_scheme \<Rightarrow> rendered)
      context_call list" where
  "run_migrations_online repr_type connection target_metadata =
     [Configure
        [(''connection'', KwConnection connection),
         (''target_metadata'', KwMetadata target_metadata),
         (''render_item'', KwCallback (render_item repr_type))],
      Begin_transaction,
      Run_migrations]"

text \<open>The last statement of the script: one of the two, by \<^verbatim>\<open>context.is_offline_mode()\<close>.\<close>

definition env_script ::
  "bool \<Rightarrow> (type_engine \<Rightarrow> 'z AutogenContext_scheme \<Rightarrow> string) \<Rightarrow> Config \<Rightarrow> 'conn \<Rightarrow> 'md
   \<Rightarrow> ('md, 'conn,
        string \<Rightarrow> ('m, 'e, 'o) py_object \<Rightarrow> 'z AutogenContext_scheme \<Rightarrow> rendered)
      context_call list" where
  "env_script is_offline_mode repr_type config connection target_metadata =
     (if is_offline_mode then run_migrations_offline repr_type config target_metadata
      else run_migrations_online repr_type connection target_metadata)"

text \<open>
  The value each \<^verbatim>\<open>configure\<close> call of a run gives the keyword \<open>k\<close>, in order
  (\<open>None\<close> where the call does not pass it).
\<close>

fun configured :: "string \<Rightarrow> ('md, 'conn, 'cb) context_call list
    \<Rightarrow> ('md, 'conn, 'cb) kwarg option list" where
  "configured k [] = []"
| "configured k (Configure kwargs # cs) = map_of kwargs k # configured k cs"
| "configured k (Begin_transaction # cs) = configured k cs"
| "configured k (Run_migrations # cs) = configured k cs"

section \<open>Instances of the libraries' interfaces\<close>

text \<open>
  Concrete dialects, objects and model types at which the theorems below are evaluated.
  \<open>flag_model\<close> is shaped after \<^verbatim>\<open>class Flag(RootModel[Optional[bool]])\<close>, a subclass of
  \<^verbatim>\<open>BaseModel\<close> whose JSON-mode dump is the root value itself, so \<^verbatim>\<open>None\<close> for the root
  \<^verbatim>\<open>None\<close>, and whose JSON text is \<^verbatim>\<open>null\<close>, \<^verbatim>\<open>true\<close> or \<^verbatim>\<open>false\<close>. \<open>hidden_model\<close>
  is shaped after a model with the one field
  \<^verbatim>\<open>secret: bool = Field(default=False, exclude=True)\<close>: the dump leaves the field out,
  and validation fills in the default. Both validators refuse every other input.
\<close>

datatype exn = ValidationError

datatype flag = Flag "bool option"

datatype hidden = Hidden bool

definition flag_model :: "(flag, exn) pydantic_model" where
  "flag_model =
     \<lparr>model_dump = (\<lambda>mode m. case m of
          Flag None \<Rightarrow> Inr PyNone
        | Flag (Some b) \<Rightarrow> Inr (PyBool b)),
      model_dump_json = (\<lambda>m. case m of
          Flag None \<Rightarrow> Inr ''null''
        | Flag (Some b) \<Rightarrow> Inr (if b then ''true'' else ''false'')),
      model_validate_json = (\<lambda>v.
          if v = PyStr ''null'' then Inr (Flag None)
          else if v = PyStr ''true'' then Inr (Flag (Some True))
          else if v = PyStr ''false'' then Inr (Flag (Some False))
          else Inl ValidationError),
      TypeAdapter = \<lparr>validate_python = (\<lambda>v. case v of
          PyNone \<Rightarrow> Inr (Flag None)
        | PyBool b \<Rightarrow> Inr (Flag (Some b))
        | _ \<Rightarrow> Inl ValidationError)\<rparr>\<rparr>"

definition hidden_model :: "(hidden, exn) pydantic_model" where
  "hidden_model =
     \<lparr>model_dump = (\<lambda>mode m. Inr (PyDict [])),
      model_dump_json = (\<lambda>m. Inr ''{}''),
      model_validate_json = (\<lambda>v.
          if v = PyStr ''{}'' then Inr (Hidden False) else Inl ValidationError),
      TypeAdapter = \<lparr>validate_python = (\<lambda>v.
          if v = PyDict [] then Inr (Hidden False) else Inl ValidationError)\<rparr>\<rparr>"

definition sqlite :: Dialect where
  "sqlite = \<lparr>name = ''sqlite'', type_descriptor = (\<lambda>t. t)\<rparr>"

definition postgresql :: Dialect where
  "postgresql = \<lparr>name = ''postgresql'', type_descriptor = (\<lambda>t. t)\<rparr>"

definition json_super :: TypeDecorator where
  "json_super = \<lparr>impl = TypeInstance (Instance JSON [] []), impl_instance = Instance JSON [] []\<rparr>"

definition string_super :: TypeDecorator where
  "string_super =
     \<lparr>impl = TypeInstance (Instance String [] []), impl_instance = Instance String [] []\<rparr>"

text \<open>
  A callable object that is falsy, and an ordinary function; both return a fixed string
  for every model.
\<close>

definition falsy_serializer :: "(flag, exn + any) callable" where
  "falsy_serializer = \<lparr>call = (\<lambda>m. Inr (PyStr ''custom'')), truthy = False\<rparr>"

definition custom_serializer :: "(flag, exn + any) callable" where
  "custom_serializer = \<lparr>call = (\<lambda>m. Inr (PyStr ''custom'')), truthy = True\<rparr>"

definition falsy_deserializer :: "(any, exn + flag) callable" where
  "falsy_deserializer = \<lparr>call = (\<lambda>v. Inr (Flag (Some True))), truthy = False\<rparr>"

definition custom_deserializer :: "(any, exn + flag) callable" where
  "custom_deserializer = \<lparr>call = (\<lambda>v. Inr (Flag (Some True))), truthy = True\<rparr>"

definition raising_serializer :: "(flag, exn + any) callable" where
  "raising_serializer = \<lparr>call = (\<lambda>m. Inl ValidationError), truthy = True\<rparr>"

definition raising_deserializer :: "(any, exn + flag) callable" where
  "raising_deserializer = \<lparr>call = (\<lambda>v. Inl ValidationError), truthy = True\<rparr>"

text \<open>
  A rendering that tells the class of an instance and whether it was built with
  arguments.
\<close>

definition repr_instance :: "type_engine \<Rightarrow> AutogenContext \<Rightarrow> string" where
  "repr_instance t ctx =
     (case class_of t of JSON \<Rightarrow> ''sa.JSON'' | JSONB \<Rightarrow> ''postgresql.JSONB''
      | String \<Rightarrow> ''sa.String'')
     @ (if init_args t = [] \<and> init_kwargs t = [] then ''()'' else ''(...)'')"

section \<open>Properties\<close>

subsection \<open>Facts about construction and dispatch\<close>

lemma init_fields:
  "cls (init c td pmt ser deser) = c"
  "pydantic_model_type (init c td pmt ser deser) = pmt"
  "impl (init c td pmt ser deser) = impl td"
  "impl_instance (init c td pmt ser deser) = impl_instance td"
  by (simp_all add: init_def Let_def)

lemma new_fields:
  "cls (PydanticJSON_new pmt args ser deser kwargs) = PydanticJSON"
  "impl (PydanticJSON_new pmt args ser deser kwargs) = TypeInstance (Instance JSON args kwargs)"
  "impl_instance (PydanticJSON_new pmt args ser deser kwargs) = Instance JSON args kwargs"
  "cls (PydanticString_new pmt args ser deser kwargs) = PydanticString"
  "impl (PydanticString_new pmt args ser deser kwargs)
     = TypeInstance (Instance String args kwargs)"
  "impl_instance (PydanticString_new pmt args ser deser kwargs) = Instance String args kwargs"
  by (simp_all add: PydanticJSON_new_def PydanticString_new_def init_fields
      TypeDecorator_init_def PydanticJSON_impl_def PydanticString_impl_def Let_def)

lemma default_serializer_depends:
  "cls a = cls b \<Longrightarrow> pydantic_model_type a = pydantic_model_type b
   \<Longrightarrow> default_serializer a = default_serializer b"
  by (rule ext) (simp add: default_serializer_def BasePydanticType_default_serializer_def
      PydanticString_default_serializer_def split: pydantic_class.splits)

lemma default_deserializer_depends:
  "cls a = cls b \<Longrightarrow> pydantic_model_type a = pydantic_model_type b
   \<Longrightarrow> default_deserializer a = default_deserializer b"
  by (rule ext) (simp add: default_deserializer_def type_adapter_def
      BasePydanticType_default_deserializer_def PydanticString_default_deserializer_def
      split: pydantic_class.splits)

lemma init_serializer:
  "serializer (init c td pmt ser deser) =
     py_or ser (bound_method (default_serializer (init c td pmt ser deser)))"
proof -
  let ?self = "\<lparr>impl = impl td, impl_instance = impl_instance td,
                 cls = c, pydantic_model_type = pmt\<rparr>"
  have "default_serializer (init c td pmt ser deser) = default_serializer ?self"
    by (rule default_serializer_depends) (simp_all add: init_fields)
  then show ?thesis
    by (simp add: init_def Let_def)
qed

lemma init_deserializer:
  "deserializer (init c td pmt ser deser) =
     py_or deser (bound_method (default_deserializer (init c td pmt ser deser)))"
proof -
  let ?self = "\<lparr>impl = impl td, impl_instance = impl_instance td,
                 cls = c, pydantic_model_type = pmt\<rparr>"
  have "default_deserializer (init c td pmt ser deser) = default_deserializer ?self"
    by (rule default_deserializer_depends) (simp_all add: init_fields)
  then show ?thesis
    by (simp add: init_def Let_def)
qed

lemma default_serializer_init:
  "default_serializer (init c td pmt ser deser) m =
     (case c of
        PydanticString \<Rightarrow>
          (case model_dump_json pmt m of Inl e \<Rightarrow> Inl e | Inr s \<Rightarrow> Inr (PyStr s))
      | _ \<Rightarrow> model_dump pmt ''json'' m)"
  by (simp add: default_serializer_def BasePydanticType_default_serializer_def
      PydanticString_default_serializer_def init_fields split: pydantic_class.splits)

lemma default_deserializer_init:
  "default_deserializer (init c td pmt ser deser) v =
     (case c of
        PydanticString \<Rightarrow> model_validate_json pmt v
      | _ \<Rightarrow> validate_python (TypeAdapter pmt) v)"
  by (simp add: default_deserializer_def BasePydanticType_default_deserializer_def
      PydanticString_default_deserializer_def type_adapter_def init_fields
      split: pydantic_class.splits)

lemma process_bind_param_Some:
  "process_bind_param self (Some m) d = call (serializer self) m"
  by (simp add: process_bind_param_def)

lemma process_result_value_not_None:
  "v \<noteq> PyNone \<Longrightarrow>
   process_result_value self v d =
     (case call (deserializer self) v of Inl e \<Rightarrow> Inl e | Inr model \<Rightarrow> Inr (Some model))"
  by (simp add: process_result_value_def)

lemma py_or_simps:
  "py_or None y = y"
  "truthy c \<Longrightarrow> py_or (Some c) y = c"
  "\<not> truthy c \<Longrightarrow> py_or (Some c) y = y"
  by (simp_all add: py_or_def)

lemma call_bound_method: "call (bound_method f) x = f x"
  by (simp add: bound_method_def)

subsection \<open>The instances, evaluated\<close>

lemma flag_model_simps:
  "model_dump flag_model mode (Flag None) = Inr PyNone"
  "model_dump flag_model mode (Flag (Some b)) = Inr (PyBool b)"
  "model_dump_json flag_model (Flag None) = Inr ''null''"
  "model_dump_json flag_model (Flag (Some True)) = Inr ''true''"
  "model_dump_json flag_model (Flag (Some False)) = Inr ''false''"
  "validate_python (TypeAdapter flag_model) PyNone = Inr (Flag None)"
  "validate_python (TypeAdapter flag_model) (PyBool b) = Inr (Flag (Some b))"
  "model_validate_json flag_model (PyStr ''null'') = Inr (Flag None)"
  "model_validate_json flag_model (PyStr ''true'') = Inr (Flag (Some True))"
  "model_validate_json flag_model (PyStr ''false'') = Inr (Flag (Some False))"
  by (simp_all add: flag_model_def)

lemma hidden_model_simps:
  "model_dump hidden_model mode m = Inr (PyDict [])"
  "model_dump_json hidden_model m = Inr ''{}''"
  "validate_python (TypeAdapter hidden_model) (PyDict []) = Inr (Hidden False)"
  "model_validate_json hidden_model (PyStr ''{}'') = Inr (Hidden False)"
  by (simp_all add: hidden_model_def)

lemma callable_simps:
  "call custom_serializer m = Inr (PyStr ''custom'')"
  "call falsy_serializer m = Inr (PyStr ''custom'')"
  "call custom_deserializer v = Inr (Flag (Some True))"
  "call raising_serializer m = Inl ValidationError"
  "call raising_deserializer v = Inl ValidationError"
  "truthy custom_serializer"
  "truthy custom_deserializer"
  "\<not> truthy falsy_serializer"
  "\<not> truthy falsy_deserializer"
  "call falsy_deserializer v = Inr (Flag (Some True))"
  by (simp_all add: custom_serializer_def falsy_serializer_def custom_deserializer_def
      raising_serializer_def raising_deserializer_def falsy_deserializer_def)

lemma dialect_simps:
  "name sqlite = ''sqlite''"
  "name postgresql = ''postgresql''"
  "type_descriptor sqlite t = t"
  "type_descriptor postgresql t = t"
  by (simp_all add: sqlite_def postgresql_def)

lemma super_simps:
  "impl json_super = TypeInstance (Instance JSON [] [])"
  "impl_instance json_super = Instance JSON [] []"
  "impl string_super = TypeInstance (Instance String [] [])"
  "impl_instance string_super = Instance String [] []"
  by (simp_all add: json_super_def string_super_def)

subsection \<open>None passes through\<close>

text \<open>
  C8. For every dialect and every adapter object, whatever serializer and deserializer
  it holds, \<^verbatim>\<open>process_bind_param(None, dialect)\<close> returns \<^verbatim>\<open>None\<close> and
  \<^verbatim>\<open>process_result_value(None, dialect)\<close> returns \<^verbatim>\<open>None\<close>. The result is a returned
  \<^verbatim>\<open>None\<close> also when the serializer and the deserializer raise on every argument: they
  are not called.
\<close>

theorem none_passthrough:
  "process_bind_param self None d = Inr PyNone
   \<and> process_result_value self PyNone d = Inr None"
  by (simp add: process_bind_param_def process_result_value_def)

theorem none_passthrough_witness:
  "process_bind_param
     (init PydanticJSON json_super flag_model (Some raising_serializer)
        (Some raising_deserializer)) None postgresql = Inr PyNone
   \<and> process_result_value
     (init PydanticJSON json_super flag_model (Some raising_serializer)
        (Some raising_deserializer)) PyNone postgresql = Inr None
   \<and> call raising_serializer (Flag None) = Inl ValidationError
   \<and> call raising_deserializer PyNone = Inl ValidationError"
  using none_passthrough [of "init PydanticJSON json_super flag_model
      (Some raising_serializer) (Some raising_deserializer)" postgresql]
  by (simp add: callable_simps)

subsection \<open>The dialect does not influence the conversion\<close>

text \<open>
  C9. For every adapter object, every value and any two dialects,
  \<^verbatim>\<open>process_bind_param\<close> gives the same result under both dialects and so does
  \<^verbatim>\<open>process_result_value\<close>.
\<close>

theorem dialect_noninterference:
  "process_bind_param self v d1 = process_bind_param self v d2
   \<and> process_result_value self w d1 = process_result_value self w d2"
  by (simp add: process_bind_param_def process_result_value_def)

subsection \<open>Configurable serializer and deserializer\<close>

text \<open>
  What the code does of the claim C6: on a model, \<^verbatim>\<open>process_bind_param\<close> returns exactly
  what the serializer held by the object returns, and on a value other than \<^verbatim>\<open>None\<close>,
  \<^verbatim>\<open>process_result_value\<close> returns exactly what the held deserializer returns; a truthy
  callable passed to \<^verbatim>\<open>__init__\<close> is the one held, and the default is held when the
  argument is \<^verbatim>\<open>None\<close>.
\<close>

lemma callables_held:
  "process_bind_param self (Some m) d = call (serializer self) m
   \<and> (v \<noteq> PyNone \<longrightarrow>
        process_result_value self v d =
          (case call (deserializer self) v of
             Inl e \<Rightarrow> Inl e
           | Inr model \<Rightarrow> Inr (Some model)))
   \<and> (truthy s \<longrightarrow> serializer (init c td pmt (Some s) deser) = s)
   \<and> (truthy ds \<longrightarrow> deserializer (init c td pmt ser (Some ds)) = ds)
   \<and> serializer (init c td pmt None deser) =
        bound_method (default_serializer (init c td pmt None deser))
   \<and> deserializer (init c td pmt ser None) =
        bound_method (default_deserializer (init c td pmt ser None))"
  by (simp add: process_bind_param_Some process_result_value_not_None
      init_serializer init_deserializer py_or_simps)

lemma callables_held_example:
  "process_bind_param
     (init PydanticJSON json_super flag_model (Some custom_serializer)
        (Some custom_deserializer)) (Some (Flag None)) sqlite = Inr (PyStr ''custom'')
   \<and> process_result_value
     (init PydanticJSON json_super flag_model (Some custom_serializer)
        (Some custom_deserializer)) (PyBool False) sqlite = Inr (Some (Flag (Some True)))"
proof -
  let ?self = "init PydanticJSON json_super flag_model (Some custom_serializer)
      (Some custom_deserializer)"
  have n: "PyBool False \<noteq> PyNone"
    by simp
  note inst = callables_held [where self = ?self and m = "Flag None"
      and d = sqlite and v = "PyBool False" and s = custom_serializer
      and ds = custom_deserializer and c = PydanticJSON and td = json_super
      and pmt = flag_model and ser = "Some custom_serializer"
      and deser = "Some custom_deserializer"]
  from inst n callable_simps(6-7)
  have r: "process_bind_param ?self (Some (Flag None)) sqlite = call (serializer ?self) (Flag None)"
    "process_result_value ?self (PyBool False) sqlite =
       (case call (deserializer ?self) (PyBool False) of
          Inl e \<Rightarrow> Inl e
        | Inr model \<Rightarrow> Inr (Some model))"
    "serializer ?self = custom_serializer"
    "deserializer ?self = custom_deserializer"
    by blast+
  show ?thesis
    by (simp add: r callable_simps)
qed

text \<open>
  C6 says that a serializer or deserializer passed to \<^verbatim>\<open>__init__\<close> replaces the default,
  and that the default is used only when the argument is \<^verbatim>\<open>None\<close>, which is what the
  signature \<^verbatim>\<open>Callable | None = None\<close> announces. The code selects with \<^verbatim>\<open>or\<close> on lines
  33 and 34, so at a callable object that is falsy it does otherwise: the object is
  passed, is not \<^verbatim>\<open>None\<close>, and the default is called in its place. Here the passed
  serializer would return the string \<^verbatim>\<open>custom\<close> and the passed deserializer the flag
  \<^verbatim>\<open>True\<close>; the adapter returns the library's dump and the library's validation.
\<close>

theorem falsy_callable_replaced:
  "process_bind_param
     (init PydanticJSON json_super flag_model (Some falsy_serializer) None)
     (Some (Flag (Some True))) sqlite = Inr (PyBool True)
   \<and> call falsy_serializer (Flag (Some True)) = Inr (PyStr ''custom'')
   \<and> serializer (init PydanticJSON json_super flag_model (Some falsy_serializer) None)
       \<noteq> falsy_serializer
   \<and> process_result_value
     (init PydanticJSON json_super flag_model None (Some falsy_deserializer))
     (PyBool False) sqlite = Inr (Some (Flag (Some False)))
   \<and> call falsy_deserializer (PyBool False) = Inr (Flag (Some True))
   \<and> deserializer (init PydanticJSON json_super flag_model None (Some falsy_deserializer))
       \<noteq> falsy_deserializer"
proof -
  let ?self = "init PydanticJSON json_super flag_model (Some falsy_serializer) None"
  let ?self' = "init PydanticJSON json_super flag_model None (Some falsy_deserializer)"
  have s: "serializer ?self = bound_method (default_serializer ?self)"
    by (simp add: init_serializer py_or_simps callable_simps)
  have ds: "deserializer ?self' = bound_method (default_deserializer ?self')"
    by (simp add: init_deserializer py_or_simps callable_simps)
  have "truthy (serializer ?self)"
    by (simp add: s bound_method_def)
  then have ns: "serializer ?self \<noteq> falsy_serializer"
    using callable_simps(8) by metis
  have "truthy (deserializer ?self')"
    by (simp add: ds bound_method_def)
  then have nd: "deserializer ?self' \<noteq> falsy_deserializer"
    using callable_simps(9) by metis
  have b: "process_bind_param ?self (Some (Flag (Some True))) sqlite = Inr (PyBool True)"
    by (simp add: process_bind_param_Some s call_bound_method default_serializer_init
        flag_model_simps)
  have r: "process_result_value ?self' (PyBool False) sqlite = Inr (Some (Flag (Some False)))"
    by (simp add: process_result_value_def ds call_bound_method default_deserializer_init
        flag_model_simps)
  show ?thesis
    using ns nd b r by (simp add: callable_simps)
qed

subsection \<open>What is stored\<close>

text \<open>
  C4. With the default serializer, \<^verbatim>\<open>PydanticJSON.process_bind_param\<close> on a model returns
  exactly what \<^verbatim>\<open>model.model_dump(mode="json")\<close> returns (the JSON-compatible structure),
  and \<^verbatim>\<open>PydanticString.process_bind_param\<close> returns exactly the one string that
  \<^verbatim>\<open>model.model_dump_json()\<close> returns; an exception of the dump is the exception of
  the method.
\<close>

theorem storage_representation:
  "process_bind_param (init PydanticJSON td pmt None deser) (Some m) d =
     model_dump pmt ''json'' m
   \<and> process_bind_param (init PydanticString td pmt None deser) (Some m) d =
     (case model_dump_json pmt m of Inl e \<Rightarrow> Inl e | Inr s \<Rightarrow> Inr (PyStr s))"
  by (simp add: process_bind_param_Some init_serializer py_or_simps call_bound_method
      default_serializer_init)

theorem storage_representation_witness:
  "process_bind_param (init PydanticJSON json_super flag_model None None)
     (Some (Flag (Some True))) sqlite = Inr (PyBool True)
   \<and> process_bind_param (init PydanticString string_super flag_model None None)
     (Some (Flag (Some True))) sqlite = Inr (PyStr ''true'')"
  using storage_representation [where td = json_super and pmt = flag_model
      and deser = None and m = "Flag (Some True)" and d = sqlite]
    storage_representation [where td = string_super and pmt = flag_model
      and deser = None and m = "Flag (Some True)" and d = sqlite]
  by (simp add: flag_model_simps)

subsection \<open>Deserialization is the library's\<close>

text \<open>
  C5. The default deserializer of \<^verbatim>\<open>BasePydanticType\<close>, which \<^verbatim>\<open>PydanticJSON\<close> inherits,
  returns exactly \<^verbatim>\<open>TypeAdapter(pydantic_model_type).validate_python(v)\<close>, and that of
  \<^verbatim>\<open>PydanticString\<close> returns exactly \<^verbatim>\<open>pydantic_model_type.model_validate_json(v)\<close>;
  so for every value \<open>v\<close> other than \<^verbatim>\<open>None\<close>, \<^verbatim>\<open>process_result_value\<close> of an object
  built without a deserializer returns that model, or raises that exception. The library
  is arbitrary here: the adapter adds no validation of its own.
\<close>

theorem deserialization_delegated:
  "BasePydanticType_default_deserializer self v =
     validate_python (TypeAdapter (pydantic_model_type self)) v
   \<and> PydanticString_default_deserializer self v =
     model_validate_json (pydantic_model_type self) v
   \<and> call (deserializer (init BasePydanticType td pmt ser None)) v =
     validate_python (TypeAdapter pmt) v
   \<and> call (deserializer (init PydanticJSON td pmt ser None)) v =
     validate_python (TypeAdapter pmt) v
   \<and> call (deserializer (init PydanticString td pmt ser None)) v =
     model_validate_json pmt v
   \<and> (v \<noteq> PyNone \<longrightarrow>
        process_result_value (init PydanticJSON td pmt ser None) v d =
          (case validate_python (TypeAdapter pmt) v of
             Inl e \<Rightarrow> Inl e
           | Inr model \<Rightarrow> Inr (Some model)))
   \<and> (v \<noteq> PyNone \<longrightarrow>
        process_result_value (init PydanticString td pmt ser None) v d =
          (case model_validate_json pmt v of
             Inl e \<Rightarrow> Inl e
           | Inr model \<Rightarrow> Inr (Some model)))"
  by (simp add: BasePydanticType_default_deserializer_def type_adapter_def
      PydanticString_default_deserializer_def process_result_value_not_None
      init_deserializer py_or_simps call_bound_method default_deserializer_init)

theorem deserialization_delegated_witness:
  "process_result_value (init PydanticJSON json_super flag_model None None)
     (PyStr ''true'') sqlite = Inl ValidationError
   \<and> process_result_value (init PydanticString string_super flag_model None None)
     (PyStr ''true'') sqlite = Inr (Some (Flag (Some True)))"
proof -
  have n: "PyStr ''true'' \<noteq> PyNone"
    by simp
  have v: "validate_python (TypeAdapter flag_model) (PyStr ''true'') = Inl ValidationError"
    by (simp add: flag_model_def)
  from n deserialization_delegated [where v = "PyStr ''true''" and td = json_super
      and pmt = flag_model and ser = None and d = sqlite]
  have j: "process_result_value (init PydanticJSON json_super flag_model None None)
      (PyStr ''true'') sqlite =
        (case validate_python (TypeAdapter flag_model) (PyStr ''true'') of
           Inl e \<Rightarrow> Inl e
         | Inr model \<Rightarrow> Inr (Some model))"
    by blast
  from n deserialization_delegated [where v = "PyStr ''true''" and td = string_super
      and pmt = flag_model and ser = None and d = sqlite]
  have s: "process_result_value (init PydanticString string_super flag_model None None)
      (PyStr ''true'') sqlite =
        (case model_validate_json flag_model (PyStr ''true'') of
           Inl e \<Rightarrow> Inl e
         | Inr model \<Rightarrow> Inr (Some model))"
    by blast
  show ?thesis
    by (simp add: j s v flag_model_simps)
qed

subsection \<open>The round trip\<close>

text \<open>
  C1, as the code has it. With the default serializer and deserializer, storing a model
  \<open>m\<close> and loading what was stored returns \<open>m\<close> exactly when the validation library
  inverts its own dump at \<open>m\<close> and the dump is not \<^verbatim>\<open>None\<close>: for \<^verbatim>\<open>PydanticJSON\<close>,
  \<^verbatim>\<open>model_dump(mode="json")\<close> returns a value other than \<^verbatim>\<open>None\<close> that \<^verbatim>\<open>validate_python\<close>
  takes back to \<open>m\<close>; for \<^verbatim>\<open>PydanticString\<close>, \<^verbatim>\<open>model_dump_json()\<close> returns a string
  that \<^verbatim>\<open>model_validate_json\<close> takes back to \<open>m\<close>.
\<close>

theorem round_trip:
  "(store_then_load (init PydanticJSON td pmt None None) m d d' = Inr (Some m)) =
     (\<exists>v. model_dump pmt ''json'' m = Inr v \<and> v \<noteq> PyNone
          \<and> validate_python (TypeAdapter pmt) v = Inr m)
   \<and> (store_then_load (init PydanticString td pmt None None) m d d' = Inr (Some m)) =
     (\<exists>s. model_dump_json pmt m = Inr s \<and> model_validate_json pmt (PyStr s) = Inr m)"
proof -
  have j: "store_then_load (init PydanticJSON td pmt None None) m d d' =
      (case model_dump pmt ''json'' m of
         Inl e \<Rightarrow> Inl e
       | Inr v \<Rightarrow>
           if v = PyNone then Inr None
           else (case validate_python (TypeAdapter pmt) v of
                   Inl e \<Rightarrow> Inl e
                 | Inr model \<Rightarrow> Inr (Some model)))"
    by (simp add: store_then_load_def process_bind_param_Some process_result_value_def
        init_serializer init_deserializer py_or_simps call_bound_method
        default_serializer_init default_deserializer_init split: sum.splits)
  have s: "store_then_load (init PydanticString td pmt None None) m d d' =
      (case model_dump_json pmt m of
         Inl e \<Rightarrow> Inl e
       | Inr s \<Rightarrow>
           (case model_validate_json pmt (PyStr s) of
              Inl e \<Rightarrow> Inl e
            | Inr model \<Rightarrow> Inr (Some model)))"
    by (simp add: store_then_load_def process_bind_param_Some process_result_value_def
        init_serializer init_deserializer py_or_simps call_bound_method
        default_serializer_init default_deserializer_init split: sum.splits)
  show ?thesis
    unfolding j s by (auto split: sum.splits)
qed

theorem round_trip_witness:
  "store_then_load (init PydanticJSON json_super flag_model None None)
     (Flag (Some True)) sqlite sqlite = Inr (Some (Flag (Some True)))
   \<and> store_then_load (init PydanticString string_super flag_model None None)
     (Flag (Some True)) postgresql postgresql = Inr (Some (Flag (Some True)))"
proof -
  have "\<exists>v. model_dump flag_model ''json'' (Flag (Some True)) = Inr v \<and> v \<noteq> PyNone
      \<and> validate_python (TypeAdapter flag_model) v = Inr (Flag (Some True))"
    by (simp add: flag_model_simps)
  moreover have "\<exists>s. model_dump_json flag_model (Flag (Some True)) = Inr s
      \<and> model_validate_json flag_model (PyStr s) = Inr (Flag (Some True))"
    by (simp add: flag_model_simps)
  ultimately show ?thesis
    using round_trip [where td = json_super and pmt = flag_model
        and m = "Flag (Some True)" and d = sqlite and d' = sqlite]
      round_trip [where td = string_super and pmt = flag_model
        and m = "Flag (Some True)" and d = postgresql and d' = postgresql]
    by blast
qed

text \<open>
  C1 as stated fails. A model whose JSON-mode dump is \<^verbatim>\<open>None\<close> is stored as \<^verbatim>\<open>None\<close> and
  loaded as \<^verbatim>\<open>None\<close>, not as the model, although the library would validate \<^verbatim>\<open>None\<close>
  back to it: \<^verbatim>\<open>process_result_value\<close> never calls the deserializer on \<^verbatim>\<open>None\<close>. And
  where the library's dump loses a field, the adapter returns what the library rebuilds.
\<close>

theorem round_trip_counterexample:
  "store_then_load (init PydanticJSON json_super flag_model None None)
     (Flag None) sqlite sqlite = Inr None
   \<and> store_then_load (init PydanticJSON json_super flag_model None None)
     (Flag None) sqlite sqlite \<noteq> Inr (Some (Flag None))
   \<and> validate_python (TypeAdapter flag_model) PyNone = Inr (Flag None)
   \<and> store_then_load (init PydanticString string_super hidden_model None None)
     (Hidden True) sqlite sqlite = Inr (Some (Hidden False))
   \<and> store_then_load (init PydanticString string_super hidden_model None None)
     (Hidden True) sqlite sqlite \<noteq> Inr (Some (Hidden True))"
  by (simp add: store_then_load_def process_bind_param_Some process_result_value_def
      init_serializer init_deserializer py_or_simps call_bound_method
      default_serializer_init default_deserializer_init flag_model_simps hidden_model_simps)

subsection \<open>The column type per dialect\<close>

text \<open>
  C2. For every dialect, \<^verbatim>\<open>get_dialect_type_impl\<close> of a \<^verbatim>\<open>PydanticJSON\<close> object returns
  the class \<^verbatim>\<open>JSONB\<close> when the dialect's name is \<^verbatim>\<open>postgresql\<close> and otherwise the
  generic JSON impl, which is \<^verbatim>\<open>self.impl\<close>: the instance of the class attribute
  \<^verbatim>\<open>JSON\<close> built with the object's arguments. It returns \<^verbatim>\<open>JSONB\<close> exactly for that name,
  and what it returns is of class \<^verbatim>\<open>JSONB\<close> for that name and of class \<^verbatim>\<open>JSON\<close> for every
  other. The method of \<^verbatim>\<open>PydanticJSON\<close> returns \<^verbatim>\<open>JSONB\<close> or \<^verbatim>\<open>self.impl\<close> on any object,
  and \<^verbatim>\<open>BasePydanticType.get_dialect_type_impl\<close> returns \<^verbatim>\<open>self.impl\<close> for every dialect;
  \<^verbatim>\<open>PydanticString\<close> inherits it, so its objects get their \<^verbatim>\<open>String\<close> instance whatever
  the dialect.
\<close>

theorem dialect_type_selection:
  "get_dialect_type_impl (PydanticJSON_new pmt args ser deser kwargs) d =
     (if name d = ''postgresql'' then TypeClass JSONB
      else TypeInstance (Instance JSON args kwargs))
   \<and> (get_dialect_type_impl (PydanticJSON_new pmt args ser deser kwargs) d = TypeClass JSONB)
        = (name d = ''postgresql'')
   \<and> class_of (case get_dialect_type_impl (PydanticJSON_new pmt args ser deser kwargs) d of
          TypeClass c \<Rightarrow> Instance c [] []
        | TypeInstance t \<Rightarrow> t)
        = (if name d = ''postgresql'' then JSONB else JSON)
   \<and> impl (PydanticJSON_new pmt args ser deser kwargs)
        = TypeInstance (Instance JSON args kwargs)
   \<and> PydanticJSON_get_dialect_type_impl self d =
        (if name d = ''postgresql'' then TypeClass JSONB else impl self)
   \<and> BasePydanticType_get_dialect_type_impl self d = impl self
   \<and> get_dialect_type_impl (PydanticString_new pmt args ser deser kwargs) d
        = TypeInstance (Instance String args kwargs)
   \<and> get_dialect_type_impl (init PydanticJSON td pmt ser deser) d =
        (if name d = ''postgresql'' then TypeClass JSONB else impl td)
   \<and> get_dialect_type_impl (init BasePydanticType td pmt ser deser) d = impl td
   \<and> get_dialect_type_impl (init PydanticString td pmt ser deser) d = impl td"
  by (simp add: PydanticJSON_get_dialect_type_impl_def
      BasePydanticType_get_dialect_type_impl_def get_dialect_type_impl_def init_fields
      new_fields)

theorem dialect_type_selection_witness:
  "get_dialect_type_impl (PydanticJSON_new flag_model [] None None []) postgresql
     = TypeClass JSONB
   \<and> get_dialect_type_impl (PydanticJSON_new flag_model [] None None []) sqlite
     = TypeInstance (Instance JSON [] [])
   \<and> get_dialect_type_impl (PydanticString_new flag_model [PyInt 50] None None []) postgresql
     = TypeInstance (Instance String [PyInt 50] [])
   \<and> get_dialect_type_impl (PydanticString_new flag_model [PyInt 50] None None []) sqlite
     = TypeInstance (Instance String [PyInt 50] [])"
proof -
  note t = dialect_type_selection [where pmt = flag_model and ser = None
      and deser = None and kwargs = "[]" and td = json_super
      and self = "PydanticJSON_new flag_model [] None None []"]
  from t [where args = "[]" and d = postgresql]
  have "get_dialect_type_impl (PydanticJSON_new flag_model [] None None []) postgresql
      = TypeClass JSONB"
    by (simp add: dialect_simps)
  moreover from t [where args = "[]" and d = sqlite]
  have "get_dialect_type_impl (PydanticJSON_new flag_model [] None None []) sqlite
      = TypeInstance (Instance JSON [] [])"
    by (simp add: dialect_simps)
  moreover from t [where args = "[PyInt 50]" and d = postgresql]
  have "get_dialect_type_impl (PydanticString_new flag_model [PyInt 50] None None [])
      postgresql = TypeInstance (Instance String [PyInt 50] [])"
    by simp
  moreover from t [where args = "[PyInt 50]" and d = sqlite]
  have "get_dialect_type_impl (PydanticString_new flag_model [PyInt 50] None None [])
      sqlite = TypeInstance (Instance String [PyInt 50] [])"
    by simp
  ultimately show ?thesis
    by simp
qed

subsection \<open>What \<^verbatim>\<open>load_dialect_impl\<close> passes on\<close>

text \<open>
  C10. \<^verbatim>\<open>load_dialect_impl\<close> returns what \<^verbatim>\<open>dialect.type_descriptor\<close> returns on an
  instance: when \<^verbatim>\<open>get_dialect_type_impl\<close> returns a class, on the instance built by
  calling the class with no arguments; when it returns an instance, on that instance
  itself.
\<close>

theorem load_dialect_impl_instance:
  "(get_dialect_type_impl self d = TypeClass c \<longrightarrow>
      load_dialect_impl self d = type_descriptor d (Instance c [] []))
   \<and> (get_dialect_type_impl self d' = TypeInstance t \<longrightarrow>
      load_dialect_impl self d' = type_descriptor d' t)"
  by (simp add: load_dialect_impl_def Let_def)

theorem load_dialect_impl_instance_witness:
  "get_dialect_type_impl (init PydanticJSON json_super flag_model None None) postgresql
     = TypeClass JSONB
   \<and> load_dialect_impl (init PydanticJSON json_super flag_model None None) postgresql
     = Instance JSONB [] []
   \<and> get_dialect_type_impl (init PydanticJSON json_super flag_model None None) sqlite
     = TypeInstance (Instance JSON [] [])
   \<and> load_dialect_impl (init PydanticJSON json_super flag_model None None) sqlite
     = Instance JSON [] []"
proof -
  let ?self = "init PydanticJSON json_super flag_model None None"
  have p: "get_dialect_type_impl ?self postgresql = TypeClass JSONB"
    and q: "get_dialect_type_impl ?self sqlite = TypeInstance (Instance JSON [] [])"
    by (simp_all add: get_dialect_type_impl_def PydanticJSON_get_dialect_type_impl_def
        init_fields dialect_simps super_simps)
  from p q load_dialect_impl_instance [where self = ?self and d = postgresql and c = JSONB
      and d' = sqlite and t = "Instance JSON [] []"]
  show ?thesis
    by (simp add: dialect_simps)
qed

subsection \<open>The rendering hook\<close>

text \<open>
  C3. On an adapter object and the item type \<^verbatim>\<open>type\<close>, \<^verbatim>\<open>render_item\<close> returns the
  rendering of the adapter's implementation type. With a dialect in the autogenerate
  context that is what \<^verbatim>\<open>get_dialect_type_impl\<close> returns for the dialect: the instance
  built with no arguments when it returns a class, the instance itself when it returns
  one. Without a dialect it is \<^verbatim>\<open>obj.impl_instance\<close>. So a \<^verbatim>\<open>PydanticJSON\<close> column is
  rendered as \<^verbatim>\<open>JSONB()\<close> for the dialect named \<^verbatim>\<open>postgresql\<close> and as its own \<^verbatim>\<open>JSON\<close>
  instance for every other dialect and for none, and a \<^verbatim>\<open>PydanticString\<close> column as its own
  \<^verbatim>\<open>String\<close> instance always. On every other item the hook returns \<^verbatim>\<open>False\<close>; it
  returns a rendering exactly for the items of type \<^verbatim>\<open>type\<close> that are instances of
  \<^verbatim>\<open>BasePydanticType\<close>.
\<close>

theorem render_item_cases:
  "render_item repr_type type' (PydanticTypeObj self :: ('m, 'e, 'o) py_object) ctx =
     (if type' = ''type'' then
        (case dialect ctx of
           Some d \<Rightarrow>
             (case get_dialect_type_impl self d of
                TypeClass c \<Rightarrow> Rendered (repr_type (Instance c [] []) ctx)
              | TypeInstance t \<Rightarrow> Rendered (repr_type t ctx))
         | None \<Rightarrow> Rendered (repr_type (impl_instance self) ctx))
      else RFalse)
   \<and> render_item repr_type type' (OtherObj x :: ('m, 'e, 'o) py_object) ctx = RFalse
   \<and> (render_item repr_type type' (obj :: ('m, 'e, 'o) py_object) ctx \<noteq> RFalse)
        = (type' = ''type'' \<and> isinstance_BasePydanticType obj)
   \<and> render_item repr_type ''type''
        (PydanticTypeObj (PydanticJSON_new pmt args ser deser kwargs) ::
           ('m, 'e, 'o) py_object) ctx =
        Rendered (repr_type
          (case dialect ctx of
             Some d \<Rightarrow>
               if name d = ''postgresql'' then Instance JSONB [] []
               else Instance JSON args kwargs
           | None \<Rightarrow> Instance JSON args kwargs) ctx)
   \<and> render_item repr_type ''type''
        (PydanticTypeObj (PydanticString_new pmt args ser deser kwargs) ::
           ('m, 'e, 'o) py_object) ctx =
        Rendered (repr_type (Instance String args kwargs) ctx)"
proof -
  have g: "\<And>i. (case i of
        TypeClass c \<Rightarrow> Rendered (repr_type (Instance c [] []) ctx)
      | TypeInstance t \<Rightarrow> Rendered (repr_type t ctx))
      = Rendered (repr_type (call_if_callable i) ctx)"
    by (simp split: impl_t.splits)
  have j: "\<And>d. get_dialect_type_impl (PydanticJSON_new pmt args ser deser kwargs) d =
      (if name d = ''postgresql'' then TypeClass JSONB
       else TypeInstance (Instance JSON args kwargs))"
    by (simp add: get_dialect_type_impl_def PydanticJSON_get_dialect_type_impl_def new_fields)
  have s: "\<And>d. get_dialect_type_impl (PydanticString_new pmt args ser deser kwargs) d =
      TypeInstance (Instance String args kwargs)"
    by (simp add: get_dialect_type_impl_def BasePydanticType_get_dialect_type_impl_def
        new_fields)
  show ?thesis
    by (simp add: render_item_def Let_def g j s new_fields split: option.splits)
qed

theorem render_item_cases_witness:
  "render_item repr_instance ''type''
     (PydanticTypeObj (PydanticJSON_new flag_model [] None None []) ::
        (flag, exn, unit) py_object)
     \<lparr>dialect = Some postgresql\<rparr> = Rendered ''postgresql.JSONB()''
   \<and> render_item repr_instance ''type''
     (PydanticTypeObj (PydanticJSON_new flag_model [] None None []) ::
        (flag, exn, unit) py_object)
     \<lparr>dialect = Some sqlite\<rparr> = Rendered ''sa.JSON()''
   \<and> render_item repr_instance ''type''
     (PydanticTypeObj (PydanticJSON_new flag_model [] None None []) ::
        (flag, exn, unit) py_object)
     \<lparr>dialect = None\<rparr> = Rendered ''sa.JSON()''
   \<and> render_item repr_instance ''type''
     (PydanticTypeObj (PydanticString_new flag_model [PyInt 50] None None []) ::
        (flag, exn, unit) py_object)
     \<lparr>dialect = Some postgresql\<rparr> = Rendered ''sa.String(...)''
   \<and> render_item repr_instance ''type''
     (PydanticTypeObj (PydanticString_new flag_model [PyInt 50] None None []) ::
        (flag, exn, unit) py_object)
     \<lparr>dialect = Some sqlite\<rparr> = Rendered ''sa.String(...)''
   \<and> render_item repr_instance ''type''
     (PydanticTypeObj (PydanticString_new flag_model [PyInt 50] None None []) ::
        (flag, exn, unit) py_object)
     \<lparr>dialect = None\<rparr> = Rendered ''sa.String(...)''
   \<and> render_item repr_instance ''column''
     (PydanticTypeObj (PydanticJSON_new flag_model [] None None []) ::
        (flag, exn, unit) py_object)
     \<lparr>dialect = Some postgresql\<rparr> = RFalse
   \<and> render_item repr_instance ''type'' (OtherObj () :: (flag, exn, unit) py_object)
     \<lparr>dialect = Some postgresql\<rparr> = RFalse"
proof -
  let ?J = "PydanticJSON_new flag_model [] None None [] :: (flag, exn) pydantic_type"
  note t = render_item_cases [where repr_type = repr_instance and self = ?J and x = "()"
      and obj = "OtherObj () :: (flag, exn, unit) py_object" and pmt = flag_model
      and ser = None and deser = None and kwargs = "[]"]
  note j = t [where type' = "''type''" and args = "[]",
      THEN conjunct2, THEN conjunct2, THEN conjunct2, THEN conjunct1]
  note k = t [where type' = "''type''" and args = "[PyInt 50]",
      THEN conjunct2, THEN conjunct2, THEN conjunct2, THEN conjunct2]
  note c = t [where type' = "''column''" and args = "[]"
      and ctx = "\<lparr>dialect = Some postgresql\<rparr>", THEN conjunct1]
  note other = t [where type' = "''type''" and args = "[]"
      and ctx = "\<lparr>dialect = Some postgresql\<rparr>", THEN conjunct2, THEN conjunct1]
  show ?thesis
    by (simp add: j k c other dialect_simps repr_instance_def)
qed

subsection \<open>The hook is registered\<close>

text \<open>
  C7. Each of \<^verbatim>\<open>run_migrations_offline\<close> and \<^verbatim>\<open>run_migrations_online\<close> calls
  \<^verbatim>\<open>context.configure\<close> once, and passes it \<^verbatim>\<open>render_item=render_item\<close>; so does the
  script, whichever mode the context is in.
\<close>

theorem render_item_registered:
  "configured ''render_item'' (run_migrations_offline repr_type config md)
     = [Some (KwCallback (render_item repr_type))]
   \<and> configured ''render_item'' (run_migrations_online repr_type conn md)
     = [Some (KwCallback (render_item repr_type))]
   \<and> configured ''render_item'' (env_script offline repr_type config conn md)
     = [Some (KwCallback (render_item repr_type))]"
  by (simp add: run_migrations_offline_def run_migrations_online_def env_script_def)

end
